theory Spec2Isabelle
  imports Main "HOL-Library.Sublist"
begin

section \<open>Error values and the heap of classified errors\<close>

text \<open>
  The package \<open>xerrors\<close> (file \<open>xerrors.go\<close>) builds on \<open>github.com/pkg/errors\<close>.
  A Go value of interface type \<open>error\<close> is either nil or one of
  \<^item> \<open>Plain s\<close>: an error of a foreign type (\<open>errors.New\<close>, an \<open>os\<close> error, ...) whose
    \<open>Error()\<close> text is \<open>s\<close>; it is no \<open>XError\<close> and has no \<open>Cause()\<close> method;
  \<^item> \<open>withStack e st\<close>: the \<open>*withStack\<close> of pkg/errors, wrapping \<open>e\<close> with the call
    stack \<open>st\<close>;
  \<^item> \<open>withMessage e m\<close>: the \<open>*withMessage\<close> of pkg/errors, wrapping \<open>e\<close> with the
    text \<open>m\<close>;
  \<^item> \<open>XRef a\<close>: a pointer \<open>*xError\<close> to the classified error stored at address \<open>a\<close>.
  The structs of pkg/errors are immutable and only built by its constructors, which
  never store nil, so the wrapped error is a non-nil value. The nil interface is
  \<open>None\<close> of \<open>err option\<close>. A stack frame is kept as the text that \<open>%+v\<close> prints for it.
  \<open>is_XError e\<close> is the type assertion \<open>err.(XError)\<close>: only \<open>*xError\<close> implements the
  interface.
\<close>

type_synonym addr = nat
type_synonym frame = string
type_synonym stack = "frame list"

datatype err =
    Plain string
  | withStack err stack
  | withMessage err string
  | is_XError: XRef addr

text \<open>
  \<open>type xError struct { trace error; code int; message string }\<close>.
  The code is a Go \<open>int\<close> that is stored, read and printed with \<open>%d\<close>, and never
  computed with: it is an \<open>int\<close> here.
\<close>

record xError =
  trace :: "err option"
  code :: int
  message :: string

text \<open>
  \<open>xError\<close> values are only used through pointers, are mutated in place and are compared
  by identity (\<open>re == xe\<close>), so they live in a store indexed by address; \<open>fresh\<close> is the
  next unused address.
\<close>

record heap =
  store :: "addr \<Rightarrow> xError"
  fresh :: addr

definition empty_heap :: heap where
  "empty_heap = \<lparr>store = (\<lambda>_. \<lparr>trace = None, code = 0, message = []\<rparr>), fresh = 0\<rparr>"

definition new :: "xError \<Rightarrow> heap \<Rightarrow> addr \<times> heap" where
  \<comment> \<open>\<open>&xError{...}\<close>\<close>
  "new x h = (fresh h, h\<lparr>store := (store h)(fresh h := x), fresh := Suc (fresh h)\<rparr>)"

definition set_trace :: "addr \<Rightarrow> err option \<Rightarrow> heap \<Rightarrow> heap" where
  \<comment> \<open>\<open>xe.trace = t\<close>\<close>
  "set_trace xe t h = h\<lparr>store := (store h)(xe := (store h xe)\<lparr>trace := t\<rparr>)\<rparr>"

section \<open>The primitives of pkg/errors\<close>

text \<open>
  Modelled from the spec: the package \<open>github.com/pkg/errors\<close> imported by
  \<open>xerrors.go\<close> is not part of the sources. The spec names its capabilities
  (wrap with message and stack, attach a message only, attach a stack only, the
  \<open>Cause()\<close> capability, plain and extended rendering); the definitions follow the
  published behaviour of that package: each constructor returns nil on a nil error.
  The stack that \<open>callers()\<close> captures depends on the call site and is an argument.
\<close>

definition errors_WithStack :: "stack \<Rightarrow> err option \<Rightarrow> err option" where
  "errors_WithStack st e = (case e of None \<Rightarrow> None | Some e' \<Rightarrow> Some (withStack e' st))"

definition errors_WithMessage :: "err option \<Rightarrow> string \<Rightarrow> err option" where
  "errors_WithMessage e m = (case e of None \<Rightarrow> None | Some e' \<Rightarrow> Some (withMessage e' m))"

definition errors_Wrap :: "stack \<Rightarrow> err option \<Rightarrow> string \<Rightarrow> err option" where
  "errors_Wrap st e m =
     (case e of None \<Rightarrow> None | Some e' \<Rightarrow> Some (withStack (withMessage e' m) st))"

definition errors_Wrapf ::
  "(string \<Rightarrow> 'a list \<Rightarrow> string) \<Rightarrow> stack \<Rightarrow> err option \<Rightarrow> string \<Rightarrow> 'a list \<Rightarrow> err option" where
  \<comment> \<open>\<open>sprintf\<close> stands for \<open>fmt.Sprintf\<close>\<close>
  "errors_Wrapf sprintf st e format args =
     (case e of None \<Rightarrow> None
      | Some e' \<Rightarrow> Some (withStack (withMessage e' (sprintf format args)) st))"

section \<open>Formatting an integer with \<open>%d\<close>\<close>

fun digits :: "nat \<Rightarrow> string" where
  "digits n =
     (if n < 10 then [''0123456789'' ! n]
      else digits (n div 10) @ [''0123456789'' ! (n mod 10)])"

declare digits.simps [simp del]

definition fmt_d :: "int \<Rightarrow> string" where
  "fmt_d i = (if i < 0 then CHR ''-'' # digits (nat (- i)) else digits (nat i))"

section \<open>Construction\<close>

definition Fail :: "int \<Rightarrow> string \<Rightarrow> heap \<Rightarrow> addr \<times> heap" where
  "Fail c m h = new \<lparr>trace = None, code = c, message = m\<rparr> h"

definition Failf ::
  "(string \<Rightarrow> 'a list \<Rightarrow> string) \<Rightarrow> int \<Rightarrow> string \<Rightarrow> 'a list \<Rightarrow> heap \<Rightarrow> addr \<times> heap" where
  "Failf sprintf c format args h =
     new \<lparr>trace = None, code = c, message = sprintf format args\<rparr> h"

section \<open>Accessors\<close>

definition xError_Code :: "heap \<Rightarrow> addr \<Rightarrow> int" where
  "xError_Code h xe = code (store h xe)"

definition xError_Message :: "heap \<Rightarrow> addr \<Rightarrow> string" where
  "xError_Message h xe = message (store h xe)"

definition xError_GetError :: "heap \<Rightarrow> addr \<Rightarrow> err option" where
  "xError_GetError h xe = trace (store h xe)"

section \<open>The methods \<open>WithStack\<close>, \<open>Wrap\<close> and \<open>Wrapf\<close>\<close>

text \<open>
  Each method returns the \<open>XError\<close> it hands back (always a pointer, here its address)
  and the heap after the call. The statements keep the order of the source:
  \<open>WithStack\<close> assigns \<open>xe.trace\<close> before it looks at the type of \<open>err\<close>.
\<close>

definition xError_WithStack :: "stack \<Rightarrow> addr \<Rightarrow> err option \<Rightarrow> heap \<Rightarrow> addr \<times> heap" where
  "xError_WithStack st xe e h =
     (let h1 = set_trace xe (errors_WithStack st e) h in
      case e of
        Some (XRef re) \<Rightarrow>
          if re = xe then (re, h1)
          else
            let rawMessage = ''<Error '' @ fmt_d (xError_Code h1 re) @ ''>: '' @ xError_Message h1 re in
            if length rawMessage \<noteq> 0
            then (xe, set_trace xe (errors_WithMessage (trace (store h1 xe)) rawMessage) h1)
            else (xe, h1)
      | _ \<Rightarrow> (xe, h1))"

definition xError_Wrap :: "stack \<Rightarrow> addr \<Rightarrow> err option \<Rightarrow> string \<Rightarrow> heap \<Rightarrow> addr \<times> heap" where
  "xError_Wrap st xe e errString h =
     (case e of
        Some (XRef re) \<Rightarrow>
          let (newTrace, h1) =
                (if re = xe then (xError_GetError h re, h)
                 else
                   let (r, h') = xError_WithStack st xe (xError_GetError h re) h
                   in (Some (XRef r), h'))
          in (xe, set_trace xe (errors_WithMessage newTrace errString) h1)
      | _ \<Rightarrow> (xe, set_trace xe (errors_Wrap st e errString) h))"

definition xError_Wrapf ::
  "(string \<Rightarrow> 'a list \<Rightarrow> string) \<Rightarrow> stack \<Rightarrow> addr \<Rightarrow> err option \<Rightarrow> string \<Rightarrow> 'a list \<Rightarrow> heap
     \<Rightarrow> addr \<times> heap" where
  "xError_Wrapf sprintf st xe e errString args h =
     (case e of
        Some (XRef re) \<Rightarrow>
          let (newTrace, h1) =
                (if re = xe then (xError_GetError h re, h)
                 else
                   let (r, h') = xError_WithStack st xe (xError_GetError h re) h
                   in (Some (XRef r), h'))
          in (xe, set_trace xe (errors_WithMessage newTrace (sprintf errString args)) h1)
      | _ \<Rightarrow> (xe, set_trace xe (errors_Wrapf sprintf st e errString args) h))"

section \<open>The package-level functions\<close>

text \<open>They return an \<open>XError\<close> interface value that may be nil: \<open>addr option\<close>.\<close>

definition Wrap :: "stack \<Rightarrow> err option \<Rightarrow> string \<Rightarrow> heap \<Rightarrow> addr option \<times> heap" where
  "Wrap st e errString h =
     (case e of
        None \<Rightarrow> (None, h)
      | Some (XRef re) \<Rightarrow> (let (r, h') = xError_Wrap st re e errString h in (Some r, h'))
      | Some _ \<Rightarrow>
          (let (r, h') = new \<lparr>trace = errors_Wrap st e errString, code = 0, message = []\<rparr> h
           in (Some r, h')))"

definition Wrapf ::
  "(string \<Rightarrow> 'a list \<Rightarrow> string) \<Rightarrow> stack \<Rightarrow> err option \<Rightarrow> string \<Rightarrow> 'a list \<Rightarrow> heap
     \<Rightarrow> addr option \<times> heap" where
  "Wrapf sprintf st e errString args h =
     (case e of
        None \<Rightarrow> (None, h)
      | Some (XRef re) \<Rightarrow>
          (let (r, h') = xError_Wrapf sprintf st re e errString args h in (Some r, h'))
      | Some _ \<Rightarrow>
          (let (r, h') =
                 new \<lparr>trace = errors_Wrapf sprintf st e errString args, code = 0, message = []\<rparr> h
           in (Some r, h')))"

definition WithStack :: "stack \<Rightarrow> err option \<Rightarrow> heap \<Rightarrow> addr option \<times> heap" where
  "WithStack st e h =
     (case e of
        None \<Rightarrow> (None, h)
      | Some (XRef re) \<Rightarrow> (let (r, h') = xError_WithStack st re e h in (Some r, h'))
      | Some _ \<Rightarrow>
          (let (r, h') = new \<lparr>trace = errors_WithStack st e, code = 0, message = []\<rparr> h
           in (Some r, h')))"

section \<open>Rendering\<close>

text \<open>
  \<open>Error()\<close> follows the pointers of the heap, and the heap may hold a cycle, so the
  rendering functions take fuel: one unit for each call. \<open>None\<close> says that the fuel
  ran out; a call that gives \<open>None\<close> for every amount of fuel never returns.

  \<open>err_Error\<close> is the method \<open>Error()\<close> of an error value: the text of a plain error,
  \<open>w.error.Error()\<close> for the embedded error of a \<open>*withStack\<close>,
  \<open>w.msg + ": " + w.cause.Error()\<close> for a \<open>*withMessage\<close>, and \<open>xError.Error\<close> for
  a pointer to a classified error.
\<close>

fun err_Error :: "nat \<Rightarrow> heap \<Rightarrow> err \<Rightarrow> string option" where
  "err_Error 0 h e = None"
| "err_Error (Suc n) h (Plain s) = Some s"
| "err_Error (Suc n) h (withStack c st) = err_Error n h c"
| "err_Error (Suc n) h (withMessage c m) =
     (case err_Error n h c of None \<Rightarrow> None | Some s \<Rightarrow> Some (m @ '': '' @ s))"
| "err_Error (Suc n) h (XRef a) =
     (case trace (store h a) of None \<Rightarrow> Some [] | Some t \<Rightarrow> err_Error n h t)"

definition xError_Error :: "nat \<Rightarrow> heap \<Rightarrow> addr \<Rightarrow> string option" where
  "xError_Error n h xe = err_Error n h (XRef xe)"

text \<open>
  The verb \<open>%+v\<close>: \<open>xError.Format\<close> prints \<open>xe.trace\<close> with \<open>%+v\<close> and a newline
  (\<open>fmt\<close> prints a nil interface as \<open><nil>\<close>); a \<open>*withMessage\<close> prints its cause with
  \<open>%+v\<close>, a newline and its message; a \<open>*withStack\<close> prints its cause with \<open>%+v\<close> and
  then a newline and the frame for each frame of its stack; a plain error prints its
  \<open>Error()\<close> text.
\<close>

fun fmt_plus_v :: "nat \<Rightarrow> heap \<Rightarrow> err option \<Rightarrow> string option" where
  "fmt_plus_v 0 h e = None"
| "fmt_plus_v (Suc n) h None = Some ''<nil>''"
| "fmt_plus_v (Suc n) h (Some (Plain s)) = Some s"
| "fmt_plus_v (Suc n) h (Some (withStack c st)) =
     (case fmt_plus_v n h (Some c) of None \<Rightarrow> None
      | Some s \<Rightarrow> Some (s @ concat (map (\<lambda>f. CHR 0x0A # f) st)))"
| "fmt_plus_v (Suc n) h (Some (withMessage c m)) =
     (case fmt_plus_v n h (Some c) of None \<Rightarrow> None
      | Some s \<Rightarrow> Some (s @ [CHR 0x0A] @ m))"
| "fmt_plus_v (Suc n) h (Some (XRef a)) =
     (case fmt_plus_v n h (trace (store h a)) of None \<Rightarrow> None
      | Some s \<Rightarrow> Some (s @ [CHR 0x0A]))"

definition xError_Format_plus_v :: "nat \<Rightarrow> heap \<Rightarrow> addr \<Rightarrow> string option" where
  "xError_Format_plus_v n h xe = fmt_plus_v n h (Some (XRef xe))"

section \<open>Cause\<close>

text \<open>
  \<open>xError.Cause\<close>: when \<open>xe.trace\<close> has no \<open>Cause()\<close> method (it is nil or plain) the
  trace itself is returned, otherwise the trace's \<open>Cause()\<close>; for a trace that is a
  classified error this is the same method again.
\<close>

fun xError_Cause :: "nat \<Rightarrow> heap \<Rightarrow> addr \<Rightarrow> err option option" where
  "xError_Cause 0 h xe = None"
| "xError_Cause (Suc n) h xe =
     (case trace (store h xe) of
        None \<Rightarrow> Some None
      | Some (Plain s) \<Rightarrow> Some (Some (Plain s))
      | Some (withStack c st) \<Rightarrow> Some (Some c)
      | Some (withMessage c m) \<Rightarrow> Some (Some c)
      | Some (XRef b) \<Rightarrow> xError_Cause n h b)"

text \<open>
  The loop of \<open>Cause\<close>: one unit of fuel for each iteration; \<open>None\<close> when the fuel runs
  out, \<open>Some r\<close> when the loop ends and returns \<open>r\<close>.
\<close>

fun Cause :: "nat \<Rightarrow> heap \<Rightarrow> err option \<Rightarrow> err option option" where
  "Cause 0 h e = None"
| "Cause (Suc n) h None = Some None"
| "Cause (Suc n) h (Some (Plain s)) = Some (Some (Plain s))"
| "Cause (Suc n) h (Some (withStack c st)) = Cause n h (Some c)"
| "Cause (Suc n) h (Some (withMessage c m)) = Cause n h (Some c)"
| "Cause (Suc n) h (Some (XRef a)) =
     (case xError_Cause n h a of None \<Rightarrow> None | Some e' \<Rightarrow> Cause n h e')"

section \<open>Sequences of calls and measures of a trace\<close>

text \<open>
  An \<open>XError\<close> converts to an \<open>error\<close> when it is passed on: nil stays nil, a pointer
  stays the same pointer.
\<close>

definition as_error :: "addr option \<Rightarrow> err option" where
  "as_error r = (case r of None \<Rightarrow> None | Some a \<Rightarrow> Some (XRef a))"

text \<open>
  A call of one of the three wrapping methods, with its receiver, its arguments and the
  stack of its call site; \<open>apply_calls\<close> runs a sequence of such calls on a heap.
\<close>

datatype 'a call =
    CallWrap stack addr "err option" string
  | CallWrapf stack addr "err option" string "'a list"
  | CallWithStack stack addr "err option"

fun apply_call :: "(string \<Rightarrow> 'a list \<Rightarrow> string) \<Rightarrow> 'a call \<Rightarrow> heap \<Rightarrow> heap" where
  "apply_call sprintf (CallWrap st xe e m) h = snd (xError_Wrap st xe e m h)"
| "apply_call sprintf (CallWrapf st xe e f args) h = snd (xError_Wrapf sprintf st xe e f args h)"
| "apply_call sprintf (CallWithStack st xe e) h = snd (xError_WithStack st xe e h)"

fun apply_calls :: "(string \<Rightarrow> 'a list \<Rightarrow> string) \<Rightarrow> 'a call list \<Rightarrow> heap \<Rightarrow> heap" where
  "apply_calls sprintf [] h = h"
| "apply_calls sprintf (c # cs) h = apply_calls sprintf cs (apply_call sprintf c h)"

text \<open>
  The stack snapshots and the message layers that a trace value holds, outermost
  first; a pointer to a classified error is not followed.
\<close>

fun err_stacks :: "err \<Rightarrow> stack list" where
  "err_stacks (Plain s) = []"
| "err_stacks (withStack c st) = st # err_stacks c"
| "err_stacks (withMessage c m) = err_stacks c"
| "err_stacks (XRef a) = []"

definition trace_stacks :: "err option \<Rightarrow> stack list" where
  "trace_stacks t = (case t of None \<Rightarrow> [] | Some e \<Rightarrow> err_stacks e)"

fun err_messages :: "err \<Rightarrow> string list" where
  "err_messages (Plain s) = []"
| "err_messages (withStack c st) = err_messages c"
| "err_messages (withMessage c m) = m # err_messages c"
| "err_messages (XRef a) = []"

definition trace_messages :: "err option \<Rightarrow> string list" where
  "trace_messages t = (case t of None \<Rightarrow> [] | Some e \<Rightarrow> err_messages e)"

section \<open>The scenarios of the specification\<close>

text \<open>\<open>Wrap(Wrap(e, "inner"), "outer")\<close>, with the stacks of the two call sites.\<close>

definition Wrap_inner_outer :: "stack \<Rightarrow> stack \<Rightarrow> err option \<Rightarrow> heap \<Rightarrow> addr option \<times> heap" where
  "Wrap_inner_outer st1 st2 e h =
     (let (r1, h1) = Wrap st1 e ''inner'' h
      in Wrap st2 (as_error r1) ''outer'' h1)"

text \<open>\<open>WithStack(WithStack(WithStack(e)))\<close>, with the stacks of the three call sites.\<close>

definition WithStack3 :: "stack \<Rightarrow> stack \<Rightarrow> stack \<Rightarrow> err option \<Rightarrow> heap \<Rightarrow> addr option \<times> heap" where
  "WithStack3 st1 st2 st3 e h =
     (let (r1, h1) = WithStack st1 e h;
          (r2, h2) = WithStack st2 (as_error r1) h1
      in WithStack st3 (as_error r2) h2)"

text \<open>
  \<open>a := Fail(404, "not found"); b := Fail(c, m)\<close> and then \<open>b.Wrap(a, "context")\<close>,
  respectively \<open>b.WithStack(a)\<close>.
\<close>

definition Wrap_nested :: "int \<Rightarrow> string \<Rightarrow> stack \<Rightarrow> heap \<Rightarrow> addr \<times> heap" where
  "Wrap_nested c m st h =
     (let (a, h1) = Fail 404 ''not found'' h;
          (b, h2) = Fail c m h1
      in xError_Wrap st b (Some (XRef a)) ''context'' h2)"

definition WithStack_nested :: "int \<Rightarrow> string \<Rightarrow> stack \<Rightarrow> heap \<Rightarrow> addr \<times> heap" where
  "WithStack_nested c m st h =
     (let (a, h1) = Fail 404 ''not found'' h;
          (b, h2) = Fail c m h1
      in xError_WithStack st b (Some (XRef a)) h2)"

text \<open>\<open>x.Wrap(x, m)\<close> once, and twice in a row; the heap after the last call.\<close>

definition self_Wrap_once :: "stack \<Rightarrow> addr \<Rightarrow> string \<Rightarrow> heap \<Rightarrow> heap" where
  "self_Wrap_once st x m h = snd (xError_Wrap st x (Some (XRef x)) m h)"

definition self_Wrap_twice :: "stack \<Rightarrow> addr \<Rightarrow> string \<Rightarrow> heap \<Rightarrow> heap" where
  "self_Wrap_twice st x m h = self_Wrap_once st x m (self_Wrap_once st x m h)"

text \<open>
  \<open>x := Fail(404, "not found"); x.Wrap(plain, "a")\<close> for a plain error with the text
  \<open>boom\<close>: a classified error with a trace, at address 0.
\<close>

definition classified_with_trace :: heap where
  "classified_with_trace =
     snd (xError_Wrap [''main.f''] 0 (Some (Plain ''boom'')) ''a''
            (snd (Fail 404 ''not found'' empty_heap)))"

section \<open>Basic facts\<close>

lemma store_set_trace:
  "store (set_trace xe t h) a = (if a = xe then (store h xe)\<lparr>trace := t\<rparr> else store h a)"
  by (simp add: set_trace_def)

lemma fresh_set_trace: "fresh (set_trace xe t h) = fresh h"
  by (simp add: set_trace_def)

lemma code_set_trace: "code (store (set_trace xe t h) a) = code (store h a)"
  by (simp add: store_set_trace)

lemma message_set_trace: "message (store (set_trace xe t h) a) = message (store h a)"
  by (simp add: store_set_trace)

lemma new_simps:
  "fst (new x h) = fresh h"
  "store (snd (new x h)) a = (if a = fresh h then x else store h a)"
  "fresh (snd (new x h)) = Suc (fresh h)"
  by (simp_all add: new_def)

lemma errors_nil:
  "errors_WithStack st None = None"
  "errors_WithMessage None m = None"
  "errors_Wrap st None m = None"
  "errors_Wrapf sprintf st None f args = None"
  by (simp_all add: errors_WithStack_def errors_WithMessage_def errors_Wrap_def errors_Wrapf_def)

lemma trace_set_trace: "trace (store (set_trace xe t h) xe) = t"
  by (simp add: store_set_trace)

subsection \<open>Fuel\<close>

text \<open>
  More fuel never changes a result: a call that returns with some fuel returns the same
  value with any larger amount.
\<close>

lemma err_Error_mono: "n \<le> n' \<Longrightarrow> err_Error n h e = Some s \<Longrightarrow> err_Error n' h e = Some s"
proof (induction n arbitrary: n' e s)
  case 0
  then show ?case by simp
next
  case (Suc n)
  from Suc.prems(1) obtain k where k: "n' = Suc k" "n \<le> k"
    by (cases n') simp_all
  show ?case
  proof (cases e)
    case (Plain t)
    with Suc.prems(2) have "s = t" by simp
    then show ?thesis using Plain k(1) by simp
  next
    case (withStack c st)
    with Suc.prems(2) have "err_Error n h c = Some s" by simp
    then have "err_Error k h c = Some s"
      by (rule Suc.IH [OF k(2)])
    then show ?thesis using withStack k(1) by simp
  next
    case (withMessage c m)
    with Suc.prems(2) obtain t where t: "err_Error n h c = Some t" "s = m @ '': '' @ t"
      by (auto split: option.splits)
    have "err_Error k h c = Some t"
      by (rule Suc.IH [OF k(2) t(1)])
    then show ?thesis using withMessage k(1) t(2) by simp
  next
    case (XRef a)
    show ?thesis
    proof (cases "trace (store h a)")
      case None
      with XRef Suc.prems(2) have "s = []" by simp
      then show ?thesis using XRef None k(1) by simp
    next
      case (Some t)
      with XRef Suc.prems(2) have "err_Error n h t = Some s" by simp
      then have "err_Error k h t = Some s"
        by (rule Suc.IH [OF k(2)])
      then show ?thesis using XRef Some k(1) by simp
    qed
  qed
qed

lemma fmt_plus_v_mono:
  "n \<le> n' \<Longrightarrow> fmt_plus_v n h e = Some s \<Longrightarrow> fmt_plus_v n' h e = Some s"
proof (induction n arbitrary: n' e s)
  case 0
  then show ?case by simp
next
  case (Suc n)
  from Suc.prems(1) obtain k where k: "n' = Suc k" "n \<le> k"
    by (cases n') simp_all
  show ?case
  proof (cases e)
    case None
    with Suc.prems(2) have "s = ''<nil>''" by simp
    then show ?thesis using None k(1) by simp
  next
    case (Some e')
    show ?thesis
    proof (cases e')
      case (Plain t)
      with Some Suc.prems(2) have "s = t" by simp
      then show ?thesis using Some Plain k(1) by simp
    next
      case (withStack c st)
      with Some Suc.prems(2) obtain t where
        t: "fmt_plus_v n h (Some c) = Some t" "s = t @ concat (map (\<lambda>f. CHR 0x0A # f) st)"
        by (auto split: option.splits)
      have "fmt_plus_v k h (Some c) = Some t"
        by (rule Suc.IH [OF k(2) t(1)])
      then show ?thesis using Some withStack k(1) t(2) by simp
    next
      case (withMessage c m)
      with Some Suc.prems(2) obtain t where
        t: "fmt_plus_v n h (Some c) = Some t" "s = t @ [CHR 0x0A] @ m"
        by (auto split: option.splits)
      have "fmt_plus_v k h (Some c) = Some t"
        by (rule Suc.IH [OF k(2) t(1)])
      then show ?thesis using Some withMessage k(1) t(2) by simp
    next
      case (XRef a)
      with Some Suc.prems(2) obtain t where
        t: "fmt_plus_v n h (trace (store h a)) = Some t" "s = t @ [CHR 0x0A]"
        by (auto split: option.splits)
      have "fmt_plus_v k h (trace (store h a)) = Some t"
        by (rule Suc.IH [OF k(2) t(1)])
      then show ?thesis using Some XRef k(1) t(2) by simp
    qed
  qed
qed

lemma xError_Cause_mono:
  "n \<le> n' \<Longrightarrow> xError_Cause n h a = Some r \<Longrightarrow> xError_Cause n' h a = Some r"
proof (induction n arbitrary: n' a r)
  case 0
  then show ?case by simp
next
  case (Suc n)
  from Suc.prems(1) obtain k where k: "n' = Suc k" "n \<le> k"
    by (cases n') simp_all
  show ?case
  proof (cases "trace (store h a)")
    case None
    with Suc.prems(2) have "r = None" by simp
    then show ?thesis using None k(1) by simp
  next
    case (Some t)
    show ?thesis
    proof (cases t)
      case (XRef b)
      with Some Suc.prems(2) have "xError_Cause n h b = Some r" by simp
      then have "xError_Cause k h b = Some r"
        by (rule Suc.IH [OF k(2)])
      then show ?thesis using Some XRef k(1) by simp
    next
      case (Plain s)
      with Some Suc.prems(2) have "r = Some (Plain s)" by simp
      then show ?thesis using Some Plain k(1) by simp
    next
      case (withStack c st)
      with Some Suc.prems(2) have "r = Some c" by simp
      then show ?thesis using Some withStack k(1) by simp
    next
      case (withMessage c m)
      with Some Suc.prems(2) have "r = Some c" by simp
      then show ?thesis using Some withMessage k(1) by simp
    qed
  qed
qed

lemma Cause_mono: "n \<le> n' \<Longrightarrow> Cause n h e = Some r \<Longrightarrow> Cause n' h e = Some r"
proof (induction n arbitrary: n' e r)
  case 0
  then show ?case by simp
next
  case (Suc n)
  from Suc.prems(1) obtain k where k: "n' = Suc k" "n \<le> k"
    by (cases n') simp_all
  show ?case
  proof (cases e)
    case None
    with Suc.prems(2) have "r = None" by simp
    then show ?thesis using None k(1) by simp
  next
    case (Some e')
    show ?thesis
    proof (cases e')
      case (Plain s)
      with Some Suc.prems(2) have "r = Some (Plain s)" by simp
      then show ?thesis using Some Plain k(1) by simp
    next
      case (withStack c st)
      with Some Suc.prems(2) have "Cause n h (Some c) = Some r" by simp
      then have "Cause k h (Some c) = Some r"
        by (rule Suc.IH [OF k(2)])
      then show ?thesis using Some withStack k(1) by simp
    next
      case (withMessage c m)
      with Some Suc.prems(2) have "Cause n h (Some c) = Some r" by simp
      then have "Cause k h (Some c) = Some r"
        by (rule Suc.IH [OF k(2)])
      then show ?thesis using Some withMessage k(1) by simp
    next
      case (XRef a)
      with Some Suc.prems(2) obtain c where c: "xError_Cause n h a = Some c" "Cause n h c = Some r"
        by (auto split: option.splits)
      have "xError_Cause k h a = Some c"
        by (rule xError_Cause_mono [OF k(2) c(1)])
      moreover have "Cause k h c = Some r"
        by (rule Suc.IH [OF k(2) c(2)])
      ultimately show ?thesis
        using Some XRef k(1) by simp
    qed
  qed
qed

subsection \<open>Cycles\<close>

text \<open>
  When the trace of a classified error wraps a pointer to that same error, rendering it
  and looking for its cause run out of any amount of fuel.
\<close>

lemma err_Error_self_withStack:
  "trace (store h a) = Some (withStack (XRef a) st) \<Longrightarrow>
     err_Error n h (XRef a) = None \<and> err_Error n h (withStack (XRef a) st) = None"
  by (induction n) simp_all

lemma err_Error_self_withMessage:
  "trace (store h a) = Some (withMessage (XRef a) m) \<Longrightarrow>
     err_Error n h (XRef a) = None \<and> err_Error n h (withMessage (XRef a) m) = None"
  by (induction n) simp_all

lemma fmt_plus_v_self_withMessage:
  "trace (store h a) = Some (withMessage (XRef a) m) \<Longrightarrow>
     fmt_plus_v n h (Some (XRef a)) = None \<and> fmt_plus_v n h (Some (withMessage (XRef a) m)) = None"
  by (induction n) simp_all

lemma fmt_plus_v_self_withStack:
  "trace (store h a) = Some (withStack (XRef a) st) \<Longrightarrow>
     fmt_plus_v n h (Some (XRef a)) = None \<and> fmt_plus_v n h (Some (withStack (XRef a) st)) = None"
  by (induction n) simp_all

lemma xError_Cause_self_withStack:
  "trace (store h a) = Some (withStack (XRef a) st) \<Longrightarrow>
     xError_Cause n h a = (if n = 0 then None else Some (Some (XRef a)))"
  by (cases n) simp_all

lemma Cause_self_withStack:
  "trace (store h a) = Some (withStack (XRef a) st) \<Longrightarrow> Cause n h (Some (XRef a)) = None"
  by (induction n) (simp_all add: xError_Cause_self_withStack)

subsection \<open>The results of the methods and functions\<close>

lemma Wrap_not_XError:
  "\<not> is_XError e \<Longrightarrow>
     Wrap st (Some e) m h =
       (Some (fresh h), snd (new \<lparr>trace = errors_Wrap st (Some e) m, code = 0, message = []\<rparr> h))"
  by (cases e) (simp_all add: Wrap_def new_def)

lemma Wrap_XError:
  "Wrap st (Some (XRef x)) m h =
     (Some x, set_trace x (errors_WithMessage (xError_GetError h x) m) h)"
  by (simp add: Wrap_def xError_Wrap_def)

lemma WithStack_not_XError:
  "\<not> is_XError e \<Longrightarrow>
     WithStack st (Some e) h =
       (Some (fresh h), snd (new \<lparr>trace = errors_WithStack st (Some e), code = 0, message = []\<rparr> h))"
  by (cases e) (simp_all add: WithStack_def new_def)

lemma xError_WithStack_self:
  "xError_WithStack st x (Some (XRef x)) h = (x, set_trace x (Some (withStack (XRef x) st)) h)"
  by (simp add: xError_WithStack_def errors_WithStack_def)

lemma WithStack_XError:
  "WithStack st (Some (XRef x)) h = (Some x, set_trace x (Some (withStack (XRef x) st)) h)"
  by (simp add: WithStack_def xError_WithStack_self)

lemma xError_Wrap_self:
  "xError_Wrap st x (Some (XRef x)) m h =
     (x, set_trace x (errors_WithMessage (xError_GetError h x) m) h)"
  by (simp add: xError_Wrap_def)

lemma set_trace_twice: "set_trace x t (set_trace x t' h) = set_trace x t h"
  by (simp add: set_trace_def)

lemma xError_WithStack_receiver:
  "\<exists>t. xError_WithStack st xe e h = (xe, set_trace xe t h)"
proof (cases e)
  case None
  then show ?thesis by (auto simp add: xError_WithStack_def)
next
  case (Some e')
  then show ?thesis
    by (cases e') (auto simp add: xError_WithStack_def Let_def set_trace_twice)
qed

lemma xError_Wrap_other:
  assumes "a \<noteq> x"
  shows "xError_Wrap st x (Some (XRef a)) m h = (x, set_trace x (Some (withMessage (XRef x) m)) h)"
proof -
  obtain t where "xError_WithStack st x (xError_GetError h a) h = (x, set_trace x t h)"
    using xError_WithStack_receiver by blast
  then show ?thesis
    using assms by (simp add: xError_Wrap_def errors_WithMessage_def set_trace_twice)
qed

lemma xError_WithStack_other:
  assumes "a \<noteq> x"
  shows "xError_WithStack st x (Some (XRef a)) h =
     (x, set_trace x (Some (withMessage (withStack (XRef a) st)
           (''<Error '' @ fmt_d (xError_Code h a) @ ''>: '' @ xError_Message h a))) h)"
  using assms
  by (simp add: xError_WithStack_def Let_def errors_WithStack_def errors_WithMessage_def
      set_trace_twice trace_set_trace xError_Code_def xError_Message_def store_set_trace)

lemma xError_WithStack_code: "code (store (snd (xError_WithStack st xe e h)) a) = code (store h a)"
  by (simp add: xError_WithStack_def Let_def code_set_trace split: option.split err.split)

lemma xError_WithStack_message: "message (store (snd (xError_WithStack st xe e h)) a) = message (store h a)"
  by (simp add: xError_WithStack_def Let_def message_set_trace split: option.split err.split)

lemma xError_Wrap_code: "code (store (snd (xError_Wrap st xe e m h)) a) = code (store h a)"
  by (simp add: xError_Wrap_def Let_def code_set_trace xError_WithStack_code split_beta
      split: option.split err.split)

lemma xError_Wrap_message: "message (store (snd (xError_Wrap st xe e m h)) a) = message (store h a)"
  by (simp add: xError_Wrap_def Let_def message_set_trace xError_WithStack_message split_beta
      split: option.split err.split)

lemma xError_Wrapf_code: "code (store (snd (xError_Wrapf sp st xe e f args h)) a) = code (store h a)"
  by (simp add: xError_Wrapf_def Let_def code_set_trace xError_WithStack_code split_beta
      split: option.split err.split)

lemma xError_Wrapf_message: "message (store (snd (xError_Wrapf sp st xe e f args h)) a) = message (store h a)"
  by (simp add: xError_Wrapf_def Let_def message_set_trace xError_WithStack_message split_beta
      split: option.split err.split)

lemma apply_call_code: "code (store (apply_call sp c h) a) = code (store h a)"
  by (cases c) (simp_all add: xError_Wrap_code xError_Wrapf_code xError_WithStack_code)

lemma apply_call_message: "message (store (apply_call sp c h) a) = message (store h a)"
  by (cases c) (simp_all add: xError_Wrap_message xError_Wrapf_message xError_WithStack_message)

lemma apply_calls_code: "code (store (apply_calls sp cs h) a) = code (store h a)"
  by (induction cs arbitrary: h) (simp_all add: apply_call_code)

lemma apply_calls_message: "message (store (apply_calls sp cs h) a) = message (store h a)"
  by (induction cs arbitrary: h) (simp_all add: apply_call_message)

lemma trace_stacks_WithMessage: "trace_stacks (errors_WithMessage t m) = trace_stacks t"
  by (cases t) (simp_all add: errors_WithMessage_def trace_stacks_def)

lemma trace_messages_WithMessage:
  "trace_messages (errors_WithMessage t m) = (if t = None then [] else m # trace_messages t)"
  by (cases t) (simp_all add: errors_WithMessage_def trace_messages_def)

lemma self_Wrap_once_trace:
  "xError_GetError (self_Wrap_once st x m h) x = errors_WithMessage (xError_GetError h x) m"
  by (simp add: self_Wrap_once_def xError_Wrap_self xError_GetError_def trace_set_trace)

lemma WithStack3_result:
  "\<exists>a h'. WithStack3 st1 st2 st3 (Some e) h = (Some a, h')
      \<and> trace (store h' a) = Some (withStack (XRef a) st3)"
proof (cases "is_XError e")
  case True
  then obtain x where "e = XRef x"
    by (cases e) simp_all
  then show ?thesis
    by (simp add: WithStack3_def WithStack_XError as_error_def trace_set_trace)
next
  case False
  then show ?thesis
    by (simp add: WithStack3_def WithStack_not_XError WithStack_XError as_error_def
        trace_set_trace)
qed

lemma fmt_d_404: "fmt_d 404 = ''404''"
  by (simp add: fmt_d_def digits.simps)

lemma WithStack_nested_keeps_classification:
  "fst (WithStack_nested c m st h) = Suc (fresh h)
   \<and> xError_GetError (snd (WithStack_nested c m st h)) (Suc (fresh h))
       = Some (withMessage (withStack (XRef (fresh h)) st) ''<Error 404>: not found'')
   \<and> xError_Format_plus_v (n + 5) (snd (WithStack_nested c m st h)) (Suc (fresh h))
       = Some (''<nil>'' @ [CHR 0x0A] @ concat (map (\<lambda>f. CHR 0x0A # f) st) @ [CHR 0x0A]
               @ ''<Error 404>: not found'' @ [CHR 0x0A])
   \<and> xError_Code (snd (WithStack_nested c m st h)) (Suc (fresh h)) = c
   \<and> xError_Message (snd (WithStack_nested c m st h)) (Suc (fresh h)) = m"
proof -
  let ?a = "fresh h"
  let ?b = "Suc (fresh h)"
  let ?h2 = "snd (Fail c m (snd (Fail 404 ''not found'' h)))"
  have w: "WithStack_nested c m st h =
      (?b, set_trace ?b (Some (withMessage (withStack (XRef ?a) st) ''<Error 404>: not found'')) ?h2)"
    by (simp add: WithStack_nested_def Fail_def new_def xError_WithStack_other
        xError_Code_def xError_Message_def fmt_d_404)
  have tb: "trace (store (snd (WithStack_nested c m st h)) ?b)
      = Some (withMessage (withStack (XRef ?a) st) ''<Error 404>: not found'')"
    by (simp add: w trace_set_trace)
  have ta: "trace (store (snd (WithStack_nested c m st h)) ?a) = None"
    by (simp add: w store_set_trace Fail_def new_simps)
  have "fmt_plus_v (Suc (Suc (Suc (Suc (Suc n))))) (snd (WithStack_nested c m st h)) (Some (XRef ?b))
      = Some (''<nil>'' @ [CHR 0x0A] @ concat (map (\<lambda>f. CHR 0x0A # f) st) @ [CHR 0x0A]
               @ ''<Error 404>: not found'' @ [CHR 0x0A])"
    using ta tb by simp
  then have f: "xError_Format_plus_v (n + 5) (snd (WithStack_nested c m st h)) ?b
      = Some (''<nil>'' @ [CHR 0x0A] @ concat (map (\<lambda>f. CHR 0x0A # f) st) @ [CHR 0x0A]
               @ ''<Error 404>: not found'' @ [CHR 0x0A])"
    by (simp add: xError_Format_plus_v_def eval_nat_numeral)
  have cm: "code (store (snd (WithStack_nested c m st h)) ?b) = c"
    "message (store (snd (WithStack_nested c m st h)) ?b) = m"
    by (simp_all add: w code_set_trace message_set_trace Fail_def new_simps)
  show ?thesis
    using tb f cm
    by (simp add: w xError_GetError_def xError_Code_def xError_Message_def)
qed

lemma Cause_single_WithStack:
  "Cause (n + 2) (snd (WithStack st (Some (Plain s)) h))
     (as_error (fst (WithStack st (Some (Plain s)) h))) = Some (Some (Plain s))"
proof -
  have t: "trace (store (snd (WithStack st (Some (Plain s)) h)) (fresh h))
      = Some (withStack (Plain s) st)"
    by (simp add: WithStack_not_XError new_simps errors_WithStack_def)
  have "Cause (Suc (Suc n)) (snd (WithStack st (Some (Plain s)) h)) (Some (XRef (fresh h)))
      = Some (Some (Plain s))"
    using t by (cases n) simp_all
  then show ?thesis
    by (simp add: WithStack_not_XError as_error_def)
qed

section \<open>The claims\<close>

text \<open>
  C1. Claimed: for \<open>a = Fail(404, "not found")\<close> and a fresh classified \<open>b\<close>, after
  \<open>b.Wrap(a, "context")\<close> the extended rendering of \<open>b\<close> shows the code 404 and the
  message of \<open>a\<close>, while \<open>b.Code()\<close> and \<open>b.Message()\<close> keep their values.
  The code keeps the code and the message of \<open>b\<close>, but \<open>Wrap\<close> hands \<open>a.GetError()\<close>
  and not \<open>a\<close> to \<open>xe.WithStack\<close>, and takes the returned receiver as the trace to
  annotate: the trace of \<open>b\<close> becomes a message layer around \<open>b\<close> itself, the
  classification of \<open>a\<close> is never read, and neither \<open>%+v\<close> nor \<open>Error()\<close> of \<open>b\<close>
  returns for any amount of fuel. The sibling path \<open>b.WithStack(a)\<close> does store the text
  \<open><Error 404>: not found\<close> (lemma \<open>WithStack_nested_keeps_classification\<close>).
\<close>

theorem Wrap_nested_loses_classification:
  "fst (Wrap_nested c m st h) = Suc (fresh h)
   \<and> xError_GetError (snd (Wrap_nested c m st h)) (Suc (fresh h))
       = Some (withMessage (XRef (Suc (fresh h))) ''context'')
   \<and> xError_Format_plus_v n (snd (Wrap_nested c m st h)) (Suc (fresh h)) = None
   \<and> xError_Error n (snd (Wrap_nested c m st h)) (Suc (fresh h)) = None
   \<and> xError_Code (snd (Wrap_nested c m st h)) (Suc (fresh h)) = c
   \<and> xError_Message (snd (Wrap_nested c m st h)) (Suc (fresh h)) = m"
proof -
  let ?b = "Suc (fresh h)"
  let ?h2 = "snd (Fail c m (snd (Fail 404 ''not found'' h)))"
  have w: "Wrap_nested c m st h = (?b, set_trace ?b (Some (withMessage (XRef ?b) ''context'')) ?h2)"
    by (simp add: Wrap_nested_def Fail_def new_def xError_Wrap_other)
  have t: "trace (store (snd (Wrap_nested c m st h)) ?b) = Some (withMessage (XRef ?b) ''context'')"
    by (simp add: w trace_set_trace)
  have f: "fmt_plus_v n (snd (Wrap_nested c m st h)) (Some (XRef ?b)) = None"
    using fmt_plus_v_self_withMessage [OF t] by simp
  have e: "err_Error n (snd (Wrap_nested c m st h)) (XRef ?b) = None"
    using err_Error_self_withMessage [OF t] by simp
  have cm: "code (store (snd (Wrap_nested c m st h)) ?b) = c"
    "message (store (snd (Wrap_nested c m st h)) ?b) = m"
    by (simp_all add: w code_set_trace message_set_trace Fail_def new_simps)
  show ?thesis
    using t f e cm
    by (simp add: w xError_GetError_def xError_Format_plus_v_def xError_Error_def
        xError_Code_def xError_Message_def)
qed

text \<open>
  C2. Claimed: calling \<open>x.Wrap(x, m)\<close> a second time leaves the trace as it was after
  the first call. This fails for a classified error that has a trace: each self-wrap puts
  one more message layer \<open>m\<close> on the trace.
\<close>

theorem self_Wrap_twice_differs:
  "xError_GetError (self_Wrap_once [''main.g''] 0 ''m'' classified_with_trace) 0
     = Some (withMessage (withStack (withMessage (Plain ''boom'') ''a'') [''main.f'']) ''m'')
   \<and> xError_GetError (self_Wrap_twice [''main.g''] 0 ''m'' classified_with_trace) 0
     = Some (withMessage
              (withMessage (withStack (withMessage (Plain ''boom'') ''a'') [''main.f'']) ''m'') ''m'')
   \<and> xError_GetError (self_Wrap_twice [''main.g''] 0 ''m'' classified_with_trace) 0
     \<noteq> xError_GetError (self_Wrap_once [''main.g''] 0 ''m'' classified_with_trace) 0
   \<and> xError_Error 6 (self_Wrap_once [''main.g''] 0 ''m'' classified_with_trace) 0
     = Some ''m: a: boom''
   \<and> xError_Error 6 (self_Wrap_twice [''main.g''] 0 ''m'' classified_with_trace) 0
     = Some ''m: m: a: boom''"
proof -
  have t0: "xError_GetError classified_with_trace 0
      = Some (withStack (withMessage (Plain ''boom'') ''a'') [''main.f''])"
    by (simp add: classified_with_trace_def xError_Wrap_def xError_GetError_def trace_set_trace
        errors_Wrap_def)
  have t1: "xError_GetError (self_Wrap_once [''main.g''] 0 ''m'' classified_with_trace) 0
     = Some (withMessage (withStack (withMessage (Plain ''boom'') ''a'') [''main.f'']) ''m'')"
    by (simp add: self_Wrap_once_trace t0 errors_WithMessage_def)
  have t2: "xError_GetError (self_Wrap_twice [''main.g''] 0 ''m'' classified_with_trace) 0
     = Some (withMessage
              (withMessage (withStack (withMessage (Plain ''boom'') ''a'') [''main.f'']) ''m'') ''m'')"
    by (simp add: self_Wrap_twice_def self_Wrap_once_trace t0 errors_WithMessage_def)
  have e1: "xError_Error 6 (self_Wrap_once [''main.g''] 0 ''m'' classified_with_trace) 0
     = Some ''m: a: boom''"
    using t1 by (simp add: xError_Error_def xError_GetError_def eval_nat_numeral)
  have e2: "xError_Error 6 (self_Wrap_twice [''main.g''] 0 ''m'' classified_with_trace) 0
     = Some ''m: m: a: boom''"
    using t2 by (simp add: xError_Error_def xError_GetError_def eval_nat_numeral)
  show ?thesis
    using t1 t2 e1 e2 by simp
qed

text \<open>
  C2, as the code has it: \<open>x.Wrap(x, m)\<close> captures no stack and replaces the trace
  \<open>t\<close> of \<open>x\<close> by \<open>errors.WithMessage(t, m)\<close>. The stack snapshots of the trace are the
  same after each call; a non-nil trace gains one message layer per call, and a nil
  trace stays nil, so that there the second call leaves what the first left.
\<close>

theorem self_Wrap_message_layer_only:
  "xError_Wrap st x (Some (XRef x)) m h
     = (x, set_trace x (errors_WithMessage (xError_GetError h x) m) h)
   \<and> xError_GetError (self_Wrap_once st x m h) x = errors_WithMessage (xError_GetError h x) m
   \<and> xError_GetError (self_Wrap_twice st x m h) x
        = errors_WithMessage (xError_GetError (self_Wrap_once st x m h) x) m
   \<and> trace_stacks (xError_GetError (self_Wrap_once st x m h) x) = trace_stacks (xError_GetError h x)
   \<and> trace_stacks (xError_GetError (self_Wrap_twice st x m h) x)
        = trace_stacks (xError_GetError (self_Wrap_once st x m h) x)
   \<and> trace_messages (xError_GetError (self_Wrap_once st x m h) x)
        = (if xError_GetError h x = None then [] else m # trace_messages (xError_GetError h x))
   \<and> xError_Code (self_Wrap_twice st x m h) x = xError_Code h x
   \<and> xError_Message (self_Wrap_twice st x m h) x = xError_Message h x
   \<and> (xError_GetError h x = None \<longrightarrow>
        xError_GetError (self_Wrap_once st x m h) x = None
        \<and> xError_GetError (self_Wrap_twice st x m h) x
            = xError_GetError (self_Wrap_once st x m h) x)"
proof -
  have c: "xError_Code (self_Wrap_twice st x m h) x = xError_Code h x"
    "xError_Message (self_Wrap_twice st x m h) x = xError_Message h x"
    by (simp_all add: self_Wrap_twice_def self_Wrap_once_def xError_Code_def xError_Message_def
        xError_Wrap_code xError_Wrap_message)
  show ?thesis
    using c
    by (simp add: xError_Wrap_self self_Wrap_twice_def self_Wrap_once_trace
        trace_stacks_WithMessage trace_messages_WithMessage errors_nil)
qed

theorem self_Wrap_message_layer_only_witness:
  "xError_GetError (snd (Fail 404 ''not found'' empty_heap)) 0 = None
   \<and> xError_GetError (self_Wrap_once [''main.g''] 0 ''m'' (snd (Fail 404 ''not found'' empty_heap))) 0
       = None
   \<and> xError_GetError (self_Wrap_twice [''main.g''] 0 ''m'' (snd (Fail 404 ''not found'' empty_heap))) 0
       = xError_GetError (self_Wrap_once [''main.g''] 0 ''m'' (snd (Fail 404 ''not found'' empty_heap))) 0"
proof -
  have n: "xError_GetError (snd (Fail 404 ''not found'' empty_heap)) 0 = None"
    by (simp add: Fail_def new_def empty_heap_def xError_GetError_def)
  show ?thesis
    using n self_Wrap_message_layer_only
      [of "[''main.g'']" 0 "''m''" "snd (Fail 404 ''not found'' empty_heap)"]
    by (simp add: errors_nil)
qed

text \<open>
  C3. Claimed: \<open>re.WithStack(re)\<close> returns \<open>re\<close> with its trace unchanged. The
  method does return \<open>re\<close>, but it assigns \<open>xe.trace = errors.WithStack(err)\<close> before
  the identity check: the trace becomes a new stack layer around \<open>re\<close> itself, whatever
  it was before (nil for a fresh \<open>Fail(404, "not found")\<close>), and \<open>Error()\<close> of \<open>re\<close>
  no longer returns.
\<close>

theorem WithStack_self_overwrites_trace:
  "xError_WithStack st re (Some (XRef re)) h = (re, set_trace re (Some (withStack (XRef re) st)) h)
   \<and> xError_GetError (snd (xError_WithStack st re (Some (XRef re)) h)) re
       = Some (withStack (XRef re) st)
   \<and> xError_Error n (snd (xError_WithStack st re (Some (XRef re)) h)) re = None
   \<and> xError_GetError (snd (Fail 404 ''not found'' h)) (fst (Fail 404 ''not found'' h)) = None
   \<and> xError_GetError
        (snd (xError_WithStack st (fst (Fail 404 ''not found'' h))
               (Some (XRef (fst (Fail 404 ''not found'' h)))) (snd (Fail 404 ''not found'' h))))
        (fst (Fail 404 ''not found'' h))
       \<noteq> xError_GetError (snd (Fail 404 ''not found'' h)) (fst (Fail 404 ''not found'' h))"
proof -
  have t: "trace (store (set_trace re (Some (withStack (XRef re) st)) h) re)
      = Some (withStack (XRef re) st)"
    by (rule trace_set_trace)
  have "err_Error n (set_trace re (Some (withStack (XRef re) st)) h) (XRef re) = None"
    using err_Error_self_withStack [OF t] by simp
  then show ?thesis
    by (simp add: xError_WithStack_self xError_GetError_def trace_set_trace xError_Error_def
        Fail_def new_simps)
qed

text \<open>
  C4. Claimed: \<open>Cause(WithStack(WithStack(WithStack(rootErr))))\<close> returns an error
  with the text of \<open>rootErr\<close>. The second and third \<open>WithStack\<close> are self-wraps of the
  classified error that the first one built, and overwrite its trace by a stack layer
  around itself (see C3): the loop of \<open>Cause\<close> then never ends, for any non-nil
  \<open>rootErr\<close>. After a single \<open>WithStack\<close> the descent does reach the root
  (lemma \<open>Cause_single_WithStack\<close>).
\<close>

theorem Cause_of_WithStack3_never_returns:
  "Cause n (snd (WithStack3 st1 st2 st3 (Some e) h))
     (as_error (fst (WithStack3 st1 st2 st3 (Some e) h))) = None"
proof -
  obtain a h' where r: "WithStack3 st1 st2 st3 (Some e) h = (Some a, h')"
    and t: "trace (store h' a) = Some (withStack (XRef a) st3)"
    using WithStack3_result by blast
  show ?thesis
    using Cause_self_withStack [OF t] by (simp add: r as_error_def)
qed

text \<open>
  C5. The package-level \<open>Wrap(nil, m)\<close> and \<open>WithStack(nil)\<close> return nil and leave
  the heap as it is: no classified error is built.
\<close>

theorem package_nil_propagation:
  "Wrap st None m h = (None, h) \<and> WithStack st None h = (None, h)"
  by (simp add: Wrap_def WithStack_def)

text \<open>
  C6. No call of the methods \<open>Wrap\<close>, \<open>Wrapf\<close> and \<open>WithStack\<close>, with any receiver
  and any argument, changes the code or the message of any classified error: after any
  sequence of such calls \<open>Code()\<close> and \<open>Message()\<close> are what they were, and for an
  error built by \<open>Fail\<close> or \<open>Failf\<close> they are the values given at construction.
\<close>

theorem classification_write_once:
  "xError_Code (apply_calls sp cs h) a = xError_Code h a
   \<and> xError_Message (apply_calls sp cs h) a = xError_Message h a
   \<and> xError_Code (apply_calls sp cs (snd (Fail c m h))) (fst (Fail c m h)) = c
   \<and> xError_Message (apply_calls sp cs (snd (Fail c m h))) (fst (Fail c m h)) = m
   \<and> xError_Code (apply_calls sp cs (snd (Failf sp c f args h))) (fst (Failf sp c f args h)) = c
   \<and> xError_Message (apply_calls sp cs (snd (Failf sp c f args h))) (fst (Failf sp c f args h)) = sp f args"
  by (simp add: xError_Code_def xError_Message_def apply_calls_code apply_calls_message
      Fail_def Failf_def new_simps)

text \<open>
  C7. For a non-nil error \<open>e\<close> that is not classified and a message \<open>m\<close>,
  \<open>Wrap(e, m)\<close> builds a new classified error whose trace is not nil, and when
  \<open>e.Error()\<close> returns \<open>s\<close> its \<open>Error()\<close> returns \<open>m + ": " + s\<close>, which contains
  \<open>m\<close>.
\<close>

theorem Wrap_plain_annotates:
  assumes "\<not> is_XError e"
    and "err_Error k (snd (Wrap st (Some e) m h)) e = Some s"
  shows "fst (Wrap st (Some e) m h) = Some (fresh h)
    \<and> xError_GetError (snd (Wrap st (Some e) m h)) (fresh h) = Some (withStack (withMessage e m) st)
    \<and> xError_GetError (snd (Wrap st (Some e) m h)) (fresh h) \<noteq> None
    \<and> xError_Error (k + 3) (snd (Wrap st (Some e) m h)) (fresh h) = Some (m @ '': '' @ s)
    \<and> sublist m (m @ '': '' @ s)"
proof -
  let ?h = "snd (Wrap st (Some e) m h)"
  have t: "trace (store ?h (fresh h)) = Some (withStack (withMessage e m) st)"
    using assms(1) by (simp add: Wrap_not_XError new_simps errors_Wrap_def)
  have "err_Error (Suc (Suc (Suc k))) ?h (XRef (fresh h)) = Some (m @ '': '' @ s)"
    using t assms(2) by simp
  then have "xError_Error (k + 3) ?h (fresh h) = Some (m @ '': '' @ s)"
    by (simp add: xError_Error_def numeral_3_eq_3)
  then show ?thesis
    using t assms(1) by (simp add: Wrap_not_XError xError_GetError_def)
qed

theorem Wrap_plain_annotates_witness:
  "\<not> is_XError (Plain ''boom'')
   \<and> fst (Wrap [''main.f''] (Some (Plain ''boom'')) ''open failed'' empty_heap) = Some 0
   \<and> xError_GetError (snd (Wrap [''main.f''] (Some (Plain ''boom'')) ''open failed'' empty_heap)) 0
       \<noteq> None
   \<and> xError_Error 4 (snd (Wrap [''main.f''] (Some (Plain ''boom'')) ''open failed'' empty_heap)) 0
       = Some ''open failed: boom''
   \<and> sublist ''open failed'' ''open failed: boom''"
proof -
  have a: "\<not> is_XError (Plain ''boom'')" by simp
  have b: "err_Error 1 (snd (Wrap [''main.f''] (Some (Plain ''boom'')) ''open failed'' empty_heap))
      (Plain ''boom'') = Some ''boom''"
    by simp
  show ?thesis
    using Wrap_plain_annotates [OF a b] by (simp add: empty_heap_def)
qed

text \<open>
  C8. For a non-nil error \<open>e\<close> that is not classified,
  \<open>Wrap(Wrap(e, "inner"), "outer").Error()\<close> is \<open>"outer: inner: " + e.Error()\<close>: it
  contains both annotations, \<open>outer\<close> first, and \<open>outer\<close> is the outermost layer of the
  trace.
\<close>

theorem Wrap_inner_outer_order:
  assumes "\<not> is_XError e"
    and "err_Error k (snd (Wrap_inner_outer st1 st2 (Some e) h)) e = Some s"
  shows "fst (Wrap_inner_outer st1 st2 (Some e) h) = Some (fresh h)
    \<and> xError_GetError (snd (Wrap_inner_outer st1 st2 (Some e) h)) (fresh h)
        = Some (withMessage (withStack (withMessage e ''inner'') st1) ''outer'')
    \<and> trace_messages (xError_GetError (snd (Wrap_inner_outer st1 st2 (Some e) h)) (fresh h))
        = ''outer'' # ''inner'' # err_messages e
    \<and> xError_Error (k + 4) (snd (Wrap_inner_outer st1 st2 (Some e) h)) (fresh h)
        = Some (''outer: inner: '' @ s)
    \<and> sublist ''inner'' (''outer: inner: '' @ s)
    \<and> sublist ''outer'' (''outer: inner: '' @ s)
    \<and> prefix ''outer'' (''outer: inner: '' @ s)"
proof -
  let ?h = "snd (Wrap_inner_outer st1 st2 (Some e) h)"
  have r: "fst (Wrap_inner_outer st1 st2 (Some e) h) = Some (fresh h)"
    using assms(1)
    by (simp add: Wrap_inner_outer_def Wrap_not_XError as_error_def Wrap_XError)
  have t: "trace (store ?h (fresh h)) = Some (withMessage (withStack (withMessage e ''inner'') st1) ''outer'')"
    using assms(1)
    by (simp add: Wrap_inner_outer_def Wrap_not_XError as_error_def Wrap_XError
        xError_GetError_def new_simps errors_Wrap_def errors_WithMessage_def trace_set_trace)
  have "err_Error (Suc (Suc (Suc (Suc k)))) ?h (XRef (fresh h)) = Some (''outer: inner: '' @ s)"
    using t assms(2) by simp
  then have e: "xError_Error (k + 4) ?h (fresh h) = Some (''outer: inner: '' @ s)"
    by (simp add: xError_Error_def eval_nat_numeral)
  have "sublist ''inner'' (''outer: '' @ ''inner'' @ ('': '' @ s))"
    by (rule sublist_appendI)
  then have i: "sublist ''inner'' (''outer: inner: '' @ s)" by simp
  have "sublist ''outer'' (''outer'' @ ('': inner: '' @ s))"
    by (rule sublist_append_rightI)
  then have o: "sublist ''outer'' (''outer: inner: '' @ s)" by simp
  have p: "prefix ''outer'' (''outer: inner: '' @ s)"
    by simp
  show ?thesis
    using r t e i o p by (simp add: xError_GetError_def trace_messages_def)
qed

theorem Wrap_inner_outer_order_witness:
  "\<not> is_XError (Plain ''boom'')
   \<and> fst (Wrap_inner_outer [''main.f''] [''main.g''] (Some (Plain ''boom'')) empty_heap) = Some 0
   \<and> xError_Error 5
       (snd (Wrap_inner_outer [''main.f''] [''main.g''] (Some (Plain ''boom'')) empty_heap)) 0
       = Some ''outer: inner: boom''
   \<and> sublist ''inner'' ''outer: inner: boom''
   \<and> sublist ''outer'' ''outer: inner: boom''
   \<and> prefix ''outer'' ''outer: inner: boom''"
proof -
  have a: "\<not> is_XError (Plain ''boom'')" by simp
  have b: "err_Error 1
      (snd (Wrap_inner_outer [''main.f''] [''main.g''] (Some (Plain ''boom'')) empty_heap))
      (Plain ''boom'') = Some ''boom''"
    by simp
  show ?thesis
    using Wrap_inner_outer_order [OF a b] by (simp add: empty_heap_def)
qed

text \<open>
  C9. \<open>Fail(404, "not found")\<close> has no trace, so that \<open>Error()\<close> returns the empty
  string; \<open>Code()\<close> is 404 and \<open>Message()\<close> is \<open>not found\<close>.
\<close>

theorem Fail_fresh_rendering:
  "xError_Error (Suc n) (snd (Fail 404 ''not found'' h)) (fst (Fail 404 ''not found'' h)) = Some []
   \<and> xError_GetError (snd (Fail 404 ''not found'' h)) (fst (Fail 404 ''not found'' h)) = None
   \<and> xError_Code (snd (Fail 404 ''not found'' h)) (fst (Fail 404 ''not found'' h)) = 404
   \<and> xError_Message (snd (Fail 404 ''not found'' h)) (fst (Fail 404 ''not found'' h)) = ''not found''"
  by (simp add: Fail_def new_simps xError_Error_def xError_GetError_def xError_Code_def
      xError_Message_def)

text \<open>
  C10. The methods do not propagate nil: \<open>x.Wrap(nil, m)\<close>, \<open>x.Wrapf(nil, m)\<close> and
  \<open>x.WithStack(nil)\<close> return the receiver \<open>x\<close>, with its trace set to what the
  primitive of pkg/errors gives for nil, which is nil. After each call \<open>x.GetError()\<close> is
  nil, whatever the trace was before, the code and the message of \<open>x\<close> are as before, and
  nothing else in the heap has changed; a classified error that had a trace has lost it.
\<close>

theorem method_nil_returns_receiver:
  "xError_Wrap st x None m h = (x, set_trace x (errors_Wrap st None m) h)
   \<and> xError_Wrapf sprintf st x None f args h = (x, set_trace x (errors_Wrapf sprintf st None f args) h)
   \<and> xError_WithStack st x None h = (x, set_trace x (errors_WithStack st None) h)
   \<and> errors_Wrap st None m = None
   \<and> errors_Wrapf sprintf st None f args = None
   \<and> errors_WithStack st None = None
   \<and> fst (xError_Wrap st x None m h) = x
   \<and> fst (xError_Wrapf sprintf st x None f args h) = x
   \<and> fst (xError_WithStack st x None h) = x
   \<and> xError_GetError (snd (xError_Wrap st x None m h)) x = None
   \<and> xError_GetError (snd (xError_Wrapf sprintf st x None f args h)) x = None
   \<and> xError_GetError (snd (xError_WithStack st x None h)) x = None
   \<and> xError_Error (Suc n) (snd (xError_Wrap st x None m h)) x = Some []
   \<and> xError_Error (Suc n) (snd (xError_Wrapf sprintf st x None f args h)) x = Some []
   \<and> xError_Error (Suc n) (snd (xError_WithStack st x None h)) x = Some []
   \<and> store (snd (xError_Wrap st x None m h)) = (store h)(x := (store h x)\<lparr>trace := None\<rparr>)
   \<and> store (snd (xError_Wrapf sprintf st x None f args h))
       = (store h)(x := (store h x)\<lparr>trace := None\<rparr>)
   \<and> store (snd (xError_WithStack st x None h)) = (store h)(x := (store h x)\<lparr>trace := None\<rparr>)
   \<and> fresh (snd (xError_Wrap st x None m h)) = fresh h
   \<and> fresh (snd (xError_Wrapf sprintf st x None f args h)) = fresh h
   \<and> fresh (snd (xError_WithStack st x None h)) = fresh h
   \<and> xError_GetError classified_with_trace 0
       = Some (withStack (withMessage (Plain ''boom'') ''a'') [''main.f''])
   \<and> xError_GetError (snd (xError_Wrap [''main.g''] 0 None ''m'' classified_with_trace)) 0 = None
   \<and> xError_GetError (snd (xError_Wrapf sprintf [''main.g''] 0 None f args classified_with_trace)) 0
       = None
   \<and> xError_GetError (snd (xError_WithStack [''main.g''] 0 None classified_with_trace)) 0 = None"
proof -
  have w: "xError_Wrap st x None m h = (x, set_trace x None h)"
    by (simp add: xError_Wrap_def errors_nil)
  have wf: "xError_Wrapf sprintf st x None f args h = (x, set_trace x None h)"
    by (simp add: xError_Wrapf_def errors_nil)
  have ws: "xError_WithStack st x None h = (x, set_trace x None h)"
    by (simp add: xError_WithStack_def errors_nil)
  have g: "xError_GetError (set_trace x None h) x = None"
    by (simp add: xError_GetError_def trace_set_trace)
  have e: "xError_Error (Suc n) (set_trace x None h) x = Some []"
    by (simp add: xError_Error_def trace_set_trace)
  have s: "store (set_trace x None h) = (store h)(x := (store h x)\<lparr>trace := None\<rparr>)"
    by (simp add: set_trace_def)
  have f: "fresh (set_trace x None h) = fresh h"
    by (rule fresh_set_trace)
  have c0: "xError_GetError classified_with_trace 0
      = Some (withStack (withMessage (Plain ''boom'') ''a'') [''main.f''])"
    by (simp add: classified_with_trace_def xError_Wrap_def xError_GetError_def trace_set_trace
        errors_Wrap_def)
  have c1: "xError_GetError (snd (xError_Wrap [''main.g''] 0 None ''m'' classified_with_trace)) 0
      = None"
    by (simp add: xError_Wrap_def errors_nil xError_GetError_def trace_set_trace)
  have c2: "xError_GetError
      (snd (xError_Wrapf sprintf [''main.g''] 0 None f args classified_with_trace)) 0 = None"
    by (simp add: xError_Wrapf_def errors_nil xError_GetError_def trace_set_trace)
  have c3: "xError_GetError (snd (xError_WithStack [''main.g''] 0 None classified_with_trace)) 0
      = None"
    by (simp add: xError_WithStack_def errors_nil xError_GetError_def trace_set_trace)
  show ?thesis
    using g e s f c0 c1 c2 c3 by (simp add: w wf ws errors_nil)
qed

end
